theory Spec2Isabelle
  imports Complex_Main
begin

section \<open>Arrays, Python values and errors\<close>

text \<open>
  The phase subsystem of optiland works on backend arrays of floats. A one-dimensional
  array is a list of numbers and a two-dimensional array a list of rows. Floats are
  idealised as real numbers: every statement below is about the exact value of the
  expression the source evaluates, not about its rounding.
  A division by zero, which on float arrays gives an infinity or a NaN and raises
  nothing, has no counterpart in the reals; statements about computed values keep to
  inputs where no divisor vanishes.
\<close>

type_synonym array = "real list"
type_synonym array2 = "real list list"

datatype error =
    ValueError string
  | ImportError string
  | IndexError
  | ShapeError
  | AttributeError string
  | KeyError string

text \<open>\<open>a[i]\<close> on a one-dimensional array: a negative index counts from the end, an index
  out of range raises IndexError.\<close>

definition getitem :: "array \<Rightarrow> int \<Rightarrow> error + real" where
  "getitem a i =
     (let n = int (length a); k = (if i < 0 then i + n else i)
      in if 0 \<le> k \<and> k < n then Inr (a ! nat k) else Inl IndexError)"

text \<open>\<open>g.shape\<close> of a two-dimensional array: rows, then columns.\<close>

definition shape :: "array2 \<Rightarrow> nat \<times> nat" where
  "shape g = (length g, case g of [] \<Rightarrow> 0 | r # _ \<Rightarrow> length r)"

definition zeros_like :: "array \<Rightarrow> array" where
  "zeros_like a = replicate (length a) 0"

text \<open>An elementwise binary operation on two one-dimensional arrays: equal lengths pair
  up, an array of length one is stretched, anything else raises.\<close>

definition broadcast2 :: "(real \<Rightarrow> real \<Rightarrow> real) \<Rightarrow> array \<Rightarrow> array \<Rightarrow> error + array" where
  "broadcast2 f a b =
     (if length a = length b then Inr (map2 f a b)
      else if length a = 1 then Inr (map (f (hd a)) b)
      else if length b = 1 then Inr (map (\<lambda>u. f u (hd b)) a)
      else Inl ShapeError)"

section \<open>The environment: active backend and the spline dependency\<close>

text \<open>
  \<open>scipy.interpolate.RectBivariateSpline\<close> is an external library. A fitted spline is
  known here only through its method \<open>ev(xi, yi, dx, dy)\<close>, at one point; the class
  itself is a function from the two axes and the data to a fitted spline or an error,
  and is \<open>None\<close> when the import failed.
\<close>

datatype spline = Spline (ev: "real \<Rightarrow> real \<Rightarrow> nat \<Rightarrow> nat \<Rightarrow> real")

record environment =
  get_backend :: string
  RectBivariateSpline :: "(array \<Rightarrow> array \<Rightarrow> array2 \<Rightarrow> error + spline) option"

section \<open>GridInterpolator\<close>

record torch_state =
  xmin :: real
  xmax :: real
  ymin :: real
  ymax :: real
  grid_4d :: array2
  dx :: real
  dy :: real

datatype strategy = NumpyFns spline | TorchFns torch_state

record GridInterpolator =
  gi_backend :: string
  gi_x_coords :: array
  gi_y_coords :: array
  gi_grid :: array2
  gi_fns :: strategy

subsection \<open>The numpy strategy\<close>

definition setup_numpy :: "environment \<Rightarrow> array \<Rightarrow> array \<Rightarrow> array2 \<Rightarrow> error + strategy" where
  "setup_numpy env x_coords y_coords grid =
     (case RectBivariateSpline env of
        None \<Rightarrow> Inl (ImportError ''scipy is required for numpy interpolator'')
      | Some rbs \<Rightarrow>
          (case rbs y_coords x_coords grid of
             Inl e \<Rightarrow> Inl e
           | Inr sp \<Rightarrow> Inr (NumpyFns sp)))"

definition numpy_height_fn :: "spline \<Rightarrow> array \<Rightarrow> array \<Rightarrow> error + array" where
  "numpy_height_fn sp x y = broadcast2 (\<lambda>yv xv. ev sp yv xv 0 0) y x"

definition numpy_grad_fn :: "spline \<Rightarrow> array \<Rightarrow> array \<Rightarrow> error + array \<times> array" where
  "numpy_grad_fn sp x y =
     (case broadcast2 (\<lambda>yv xv. ev sp yv xv 0 1) y x of
        Inl e \<Rightarrow> Inl e
      | Inr dh_dx \<Rightarrow>
          (case broadcast2 (\<lambda>yv xv. ev sp yv xv 1 0) y x of
             Inl e \<Rightarrow> Inl e
           | Inr dh_dy \<Rightarrow> Inr (dh_dx, dh_dy)))"

subsection \<open>The torch strategy\<close>

definition setup_torch :: "array \<Rightarrow> array \<Rightarrow> array2 \<Rightarrow> error + strategy" where
  "setup_torch x_coords y_coords grid =
     (case getitem x_coords 0 of Inl e \<Rightarrow> Inl e | Inr x_first \<Rightarrow>
      case getitem x_coords (- 1) of Inl e \<Rightarrow> Inl e | Inr x_last \<Rightarrow>
      case getitem y_coords 0 of Inl e \<Rightarrow> Inl e | Inr y_first \<Rightarrow>
      case getitem y_coords (- 1) of Inl e \<Rightarrow> Inl e | Inr y_last \<Rightarrow>
      case getitem x_coords 1 of Inl e \<Rightarrow> Inl e | Inr x_second \<Rightarrow>
      case getitem y_coords 1 of Inl e \<Rightarrow> Inl e | Inr y_second \<Rightarrow>
        Inr (TorchFns \<lparr>xmin = x_first, xmax = x_last, ymin = y_first, ymax = y_last,
                       grid_4d = grid, dx = x_second - x_first, dy = y_second - y_first\<rparr>))"

definition normalize_and_grid :: "torch_state \<Rightarrow> array \<Rightarrow> array \<Rightarrow> error + (real \<times> real) list" where
  "normalize_and_grid st x_flat y_flat =
     (let x_norm = map (\<lambda>u. 2 * (u - xmin st) / (xmax st - xmin st) - 1) x_flat;
          y_norm = map (\<lambda>v. 2 * (v - ymin st) / (ymax st - ymin st) - 1) y_flat
      in if length x_norm = length y_norm then Inr (zip x_norm y_norm) else Inl ShapeError)"

text \<open>One pixel of the sampled image; outside the image the padding value is zero.\<close>

definition pixel :: "array2 \<Rightarrow> int \<Rightarrow> int \<Rightarrow> real" where
  "pixel g iy ix =
     (if 0 \<le> ix \<and> ix < int (snd (shape g)) \<and> 0 \<le> iy \<and> iy < int (fst (shape g))
      then g ! nat iy ! nat ix else 0)"

text \<open>Modelled from the spec: \<open>be.grid_sample\<close> of \<open>optiland.backend\<close> (a wrapper of the
  torch sampling kernel, not among the sources), called with bilinear mode and
  corner-aligned sampling: the normalised coordinates -1 and +1 are the centres of the
  first and the last pixel, and the value is the bilinear blend of the four pixels
  around the sample point.\<close>

definition sample_point :: "array2 \<Rightarrow> real \<times> real \<Rightarrow> real" where
  "sample_point g p =
     (let ix = (fst p + 1) / 2 * (real (snd (shape g)) - 1);
          iy = (snd p + 1) / 2 * (real (fst (shape g)) - 1);
          x0 = \<lfloor>ix\<rfloor>; y0 = \<lfloor>iy\<rfloor>; x1 = x0 + 1; y1 = y0 + 1;
          nw = (of_int x1 - ix) * (of_int y1 - iy);
          ne = (ix - of_int x0) * (of_int y1 - iy);
          sw = (of_int x1 - ix) * (iy - of_int y0);
          se = (ix - of_int x0) * (iy - of_int y0)
      in pixel g y0 x0 * nw + pixel g y0 x1 * ne + pixel g y1 x0 * sw + pixel g y1 x1 * se)"

definition grid_sample :: "array2 \<Rightarrow> (real \<times> real) list \<Rightarrow> error + array" where
  "grid_sample g ps =
     (if fst (shape g) = 0 \<or> snd (shape g) = 0 then Inl ShapeError
      else Inr (map (sample_point g) ps))"

text \<open>Modelled from the spec: the partial derivatives that automatic differentiation
  through the sampling function gives, with respect to the two normalised coordinates:
  the derivative of the bilinear blend inside the cell of the sample point.\<close>

definition sample_point_grad :: "array2 \<Rightarrow> real \<times> real \<Rightarrow> real \<times> real" where
  "sample_point_grad g p =
     (let ix = (fst p + 1) / 2 * (real (snd (shape g)) - 1);
          iy = (snd p + 1) / 2 * (real (fst (shape g)) - 1);
          x0 = \<lfloor>ix\<rfloor>; y0 = \<lfloor>iy\<rfloor>; x1 = x0 + 1; y1 = y0 + 1;
          gix = (pixel g y0 x1 - pixel g y0 x0) * (of_int y1 - iy)
              + (pixel g y1 x1 - pixel g y1 x0) * (iy - of_int y0);
          giy = (pixel g y1 x0 - pixel g y0 x0) * (of_int x1 - ix)
              + (pixel g y1 x1 - pixel g y0 x1) * (ix - of_int x0)
      in (gix * ((real (snd (shape g)) - 1) / 2), giy * ((real (fst (shape g)) - 1) / 2)))"

definition torch_height_fn :: "torch_state \<Rightarrow> array \<Rightarrow> array \<Rightarrow> error + array" where
  "torch_height_fn st x y =
     (case normalize_and_grid st x y of
        Inl e \<Rightarrow> Inl e
      | Inr grid \<Rightarrow> grid_sample (grid_4d st) grid)"

definition torch_grad_fn :: "torch_state \<Rightarrow> array \<Rightarrow> array \<Rightarrow> error + array \<times> array" where
  "torch_grad_fn st x y =
     (case normalize_and_grid st x y of
        Inl e \<Rightarrow> Inl e
      | Inr grid \<Rightarrow>
          (case grid_sample (grid_4d st) grid of
             Inl e \<Rightarrow> Inl e
           | Inr phi \<Rightarrow>
               Inr (map (\<lambda>p. fst (sample_point_grad (grid_4d st) p) * (2 / (xmax st - xmin st))) grid,
                    map (\<lambda>p. snd (sample_point_grad (grid_4d st) p) * (2 / (ymax st - ymin st))) grid)))"

subsection \<open>Construction and the two public methods\<close>

definition GridInterpolator_init ::
  "environment \<Rightarrow> array \<Rightarrow> array \<Rightarrow> array2 \<Rightarrow> error + GridInterpolator" where
  "GridInterpolator_init env x_coords y_coords grid =
     (let backend = get_backend env;
          setup = (if backend = ''numpy'' then Some (setup_numpy env x_coords y_coords grid)
                   else if backend = ''torch'' then Some (setup_torch x_coords y_coords grid)
                   else None)
      in case setup of
           None \<Rightarrow> Inl (ValueError (''Unsupported backend: '' @ backend))
         | Some r \<Rightarrow>
             (case r of
                Inl e \<Rightarrow> Inl e
              | Inr fns \<Rightarrow>
                  Inr \<lparr>gi_backend = backend, gi_x_coords = x_coords, gi_y_coords = y_coords,
                       gi_grid = grid, gi_fns = fns\<rparr>))"

definition height :: "GridInterpolator \<Rightarrow> array \<Rightarrow> array \<Rightarrow> error + array" where
  "height it x y =
     (case gi_fns it of
        NumpyFns sp \<Rightarrow> numpy_height_fn sp x y
      | TorchFns st \<Rightarrow> torch_height_fn st x y)"

definition gradient :: "GridInterpolator \<Rightarrow> array \<Rightarrow> array \<Rightarrow> error + array \<times> array" where
  "gradient it x y =
     (case gi_fns it of
        NumpyFns sp \<Rightarrow> numpy_grad_fn sp x y
      | TorchFns st \<Rightarrow> torch_grad_fn st x y)"

text \<open>Constructing an interpolator and evaluating it, as one expression.\<close>

definition height_of_grid ::
  "environment \<Rightarrow> array \<Rightarrow> array \<Rightarrow> array2 \<Rightarrow> array \<Rightarrow> array \<Rightarrow> error + array" where
  "height_of_grid env x_coords y_coords grid x y =
     (case GridInterpolator_init env x_coords y_coords grid of
        Inl e \<Rightarrow> Inl e
      | Inr it \<Rightarrow> height it x y)"

section \<open>Materials and the serialised form\<close>

text \<open>
  The material of a height profile is any Python object. Two kinds occur: a material
  object, with an optional \<open>name\<close> attribute, its \<open>str()\<close> and its vectorised method
  \<open>n\<close>; and a plain string, which is what deserialisation puts in its place. A string has
  neither a \<open>name\<close> attribute nor a method \<open>n\<close>.
\<close>

datatype material = BaseMaterial "string option" string "real \<Rightarrow> real" | PyStr string

definition material_n :: "material \<Rightarrow> array \<Rightarrow> error + array" where
  "material_n m wavelength =
     (case m of
        BaseMaterial _ _ f \<Rightarrow> Inr (map f wavelength)
      | PyStr _ \<Rightarrow> Inl (AttributeError ''n''))"

text \<open>\<open>getattr(material, "name", str(material))\<close>\<close>

definition getattr_name :: "material \<Rightarrow> string" where
  "getattr_name m =
     (case m of
        BaseMaterial (Some nm) _ _ \<Rightarrow> nm
      | BaseMaterial None s _ \<Rightarrow> s
      | PyStr s \<Rightarrow> s)"

text \<open>The dictionary of the serialised form: a key is present or absent, the
  coordinate entries are flat numeric sequences, the grid entries nested ones. The
  material entry is whatever object was stored under the key: \<open>to_dict\<close> stores a
  string, a caller may store anything. Converting an array to nested lists and back
  leaves the numbers as they are.\<close>

record pydict =
  d_phase_type :: "string option"
  d_x_coords :: "array option"
  d_y_coords :: "array option"
  d_phase_grid :: "array2 option"
  d_height_map :: "array2 option"
  d_material :: "material option"

text \<open>Modelled from the spec: \<open>BasePhaseProfile.to_dict\<close> of \<open>optiland.phase.base\<close> (not
  among the sources), which the two profiles extend: a mapping that holds the
  \<open>phase_type\<close> discriminator of the profile's class.\<close>

definition base_to_dict :: "string \<Rightarrow> pydict" where
  "base_to_dict phase_type =
     \<lparr>d_phase_type = Some phase_type, d_x_coords = None, d_y_coords = None,
      d_phase_grid = None, d_height_map = None, d_material = None\<rparr>"

section \<open>GridPhaseProfile\<close>

record GridPhaseProfile =
  gp_backend :: string
  gp_x_coords :: array
  gp_y_coords :: array
  phase_grid :: array2
  gp_interp :: GridInterpolator

definition GridPhaseProfile_init ::
  "environment \<Rightarrow> array \<Rightarrow> array \<Rightarrow> array2 \<Rightarrow> error + GridPhaseProfile" where
  "GridPhaseProfile_init env x_coords y_coords grid =
     (case GridInterpolator_init env x_coords y_coords grid of
        Inl e \<Rightarrow> Inl e
      | Inr it \<Rightarrow>
          Inr \<lparr>gp_backend = get_backend env, gp_x_coords = x_coords, gp_y_coords = y_coords,
               phase_grid = grid, gp_interp = it\<rparr>)"

text \<open>The wavelength argument is optional (\<open>None\<close> by default).\<close>

definition GridPhaseProfile_get_phase ::
  "GridPhaseProfile \<Rightarrow> array \<Rightarrow> array \<Rightarrow> array option \<Rightarrow> error + array" where
  "GridPhaseProfile_get_phase p x y wavelength = height (gp_interp p) x y"

definition GridPhaseProfile_get_gradient ::
  "GridPhaseProfile \<Rightarrow> array \<Rightarrow> array \<Rightarrow> array option \<Rightarrow> error + array \<times> array \<times> array" where
  "GridPhaseProfile_get_gradient p x y wavelength =
     (case gradient (gp_interp p) x y of
        Inl e \<Rightarrow> Inl e
      | Inr (d_phi_dx, d_phi_dy) \<Rightarrow> Inr (d_phi_dx, d_phi_dy, zeros_like x))"

definition GridPhaseProfile_get_paraxial_gradient ::
  "GridPhaseProfile \<Rightarrow> array \<Rightarrow> array option \<Rightarrow> error + array" where
  "GridPhaseProfile_get_paraxial_gradient p y wavelength =
     (let x0 = zeros_like y
      in case gradient (gp_interp p) x0 y of
           Inl e \<Rightarrow> Inl e
         | Inr (_, d_phi_dy) \<Rightarrow> Inr d_phi_dy)"

definition GridPhaseProfile_to_dict :: "GridPhaseProfile \<Rightarrow> pydict" where
  "GridPhaseProfile_to_dict p =
     (base_to_dict ''grid'')
       \<lparr>d_x_coords := Some (gp_x_coords p), d_y_coords := Some (gp_y_coords p),
        d_phase_grid := Some (phase_grid p)\<rparr>"

definition GridPhaseProfile_from_dict :: "environment \<Rightarrow> pydict \<Rightarrow> error + GridPhaseProfile" where
  "GridPhaseProfile_from_dict env data =
     (case d_x_coords data of None \<Rightarrow> Inl (KeyError ''x_coords'') | Some xs \<Rightarrow>
      case d_y_coords data of None \<Rightarrow> Inl (KeyError ''y_coords'') | Some ys \<Rightarrow>
      case d_phase_grid data of None \<Rightarrow> Inl (KeyError ''phase_grid'') | Some g \<Rightarrow>
        GridPhaseProfile_init env xs ys g)"

section \<open>HeightProfile\<close>

record HeightProfile =
  hp_backend :: string
  hp_x_coords :: array
  hp_y_coords :: array
  height_map :: array2
  material :: material
  hp_interp :: GridInterpolator

definition HeightProfile_init ::
  "environment \<Rightarrow> array \<Rightarrow> array \<Rightarrow> array2 \<Rightarrow> material \<Rightarrow> error + HeightProfile" where
  "HeightProfile_init env x_coords y_coords hmap mat =
     (case GridInterpolator_init env x_coords y_coords hmap of
        Inl e \<Rightarrow> Inl e
      | Inr it \<Rightarrow>
          Inr \<lparr>hp_backend = get_backend env, hp_x_coords = x_coords, hp_y_coords = y_coords,
               height_map = hmap, material = mat, hp_interp = it\<rparr>)"

definition interpolate_height :: "HeightProfile \<Rightarrow> array \<Rightarrow> array \<Rightarrow> error + array" where
  "interpolate_height p x y = height (hp_interp p) x y"

definition interpolate_gradient :: "HeightProfile \<Rightarrow> array \<Rightarrow> array \<Rightarrow> error + array \<times> array" where
  "interpolate_gradient p x y = gradient (hp_interp p) x y"

text \<open>The expression \<open>2 * be.pi / (wavelength * 1e-3) * (n - 1.0)\<close>, evaluated from the
  left on arrays.\<close>

definition phase_factor :: "array \<Rightarrow> array \<Rightarrow> error + array" where
  "phase_factor wavelength n =
     broadcast2 (*) (map (\<lambda>w. 2 * pi / w) (map (\<lambda>w. w * (1 / 1000)) wavelength))
                    (map (\<lambda>v. v - 1) n)"

definition HeightProfile_get_phase ::
  "HeightProfile \<Rightarrow> array \<Rightarrow> array \<Rightarrow> array \<Rightarrow> error + array" where
  "HeightProfile_get_phase p x y wavelength =
     (case interpolate_height p x y of Inl e \<Rightarrow> Inl e | Inr h \<Rightarrow>
      case material_n (material p) wavelength of Inl e \<Rightarrow> Inl e | Inr n \<Rightarrow>
      case phase_factor wavelength n of Inl e \<Rightarrow> Inl e | Inr fac \<Rightarrow>
        broadcast2 (*) fac h)"

definition HeightProfile_get_gradient ::
  "HeightProfile \<Rightarrow> array \<Rightarrow> array \<Rightarrow> array \<Rightarrow> error + array \<times> array \<times> array" where
  "HeightProfile_get_gradient p x y wavelength =
     (case interpolate_gradient p x y of Inl e \<Rightarrow> Inl e | Inr (dh_dx, dh_dy) \<Rightarrow>
      case material_n (material p) wavelength of Inl e \<Rightarrow> Inl e | Inr n \<Rightarrow>
      case phase_factor wavelength n of Inl e \<Rightarrow> Inl e | Inr fac \<Rightarrow>
      case broadcast2 (*) fac dh_dx of Inl e \<Rightarrow> Inl e | Inr gx \<Rightarrow>
      case broadcast2 (*) fac dh_dy of Inl e \<Rightarrow> Inl e | Inr gy \<Rightarrow>
        Inr (gx, gy, zeros_like x))"

definition HeightProfile_get_paraxial_gradient ::
  "HeightProfile \<Rightarrow> array \<Rightarrow> array \<Rightarrow> error + array" where
  "HeightProfile_get_paraxial_gradient p y wavelength =
     (let x0 = zeros_like y
      in case interpolate_gradient p x0 y of Inl e \<Rightarrow> Inl e | Inr (_, dh_dy) \<Rightarrow>
         case material_n (material p) wavelength of Inl e \<Rightarrow> Inl e | Inr n \<Rightarrow>
         case phase_factor wavelength n of Inl e \<Rightarrow> Inl e | Inr fac \<Rightarrow>
           broadcast2 (*) fac dh_dy)"

definition HeightProfile_to_dict :: "HeightProfile \<Rightarrow> pydict" where
  "HeightProfile_to_dict p =
     (base_to_dict ''height_profile'')
       \<lparr>d_x_coords := Some (hp_x_coords p), d_y_coords := Some (hp_y_coords p),
        d_height_map := Some (height_map p),
        d_material := Some (PyStr (getattr_name (material p)))\<rparr>"

definition HeightProfile_from_dict :: "environment \<Rightarrow> pydict \<Rightarrow> error + HeightProfile" where
  "HeightProfile_from_dict env data =
     (case d_x_coords data of None \<Rightarrow> Inl (KeyError ''x_coords'') | Some xs \<Rightarrow>
      case d_y_coords data of None \<Rightarrow> Inl (KeyError ''y_coords'') | Some ys \<Rightarrow>
      case d_height_map data of None \<Rightarrow> Inl (KeyError ''height_map'') | Some g \<Rightarrow>
      case d_material data of None \<Rightarrow> Inl (KeyError ''material'') | Some mat \<Rightarrow>
        HeightProfile_init env xs ys g mat)"

section \<open>Notions used in the statements, and example data\<close>

text \<open>An axis is equally spaced when entry \<open>k\<close> lies \<open>k\<close> equal steps after the first.\<close>

definition uniform_axis :: "array \<Rightarrow> bool" where
  "uniform_axis a \<longleftrightarrow>
     (\<forall>k<length a. a ! k = hd a + real k * (last a - hd a) / (real (length a) - 1))"

text \<open>The torch backend, with scipy not installed.\<close>

definition torch_env :: environment where
  "torch_env = \<lparr>get_backend = ''torch'', RectBivariateSpline = None\<rparr>"

text \<open>The numpy backend with a stand-in for the spline class: it checks the shape of the
  data against the two axes, as the library does, and then returns the plane
  \<open>2 u + v\<close> with its partial derivatives.\<close>

definition plane_spline :: spline where
  "plane_spline = Spline (\<lambda>u v du dv.
     if du = 0 \<and> dv = 0 then 2 * u + v
     else if du = 1 \<and> dv = 0 then 2
     else if du = 0 \<and> dv = 1 then 1 else 0)"

definition plane_rbs :: "array \<Rightarrow> array \<Rightarrow> array2 \<Rightarrow> error + spline" where
  "plane_rbs u v z =
     (if fst (shape z) \<noteq> length u
      then Inl (ValueError ''x dimension of z must have same number of elements as x'')
      else if snd (shape z) \<noteq> length v
      then Inl (ValueError ''y dimension of z must have same number of elements as y'')
      else Inr plane_spline)"

definition numpy_env :: environment where
  "numpy_env = \<lparr>get_backend = ''numpy'', RectBivariateSpline = Some plane_rbs\<rparr>"

definition plane_grid :: array2 where
  "plane_grid = [[0, 1, 2, 3], [2, 3, 4, 5], [4, 5, 6, 7], [6, 7, 8, 9]]"

text \<open>An ideal material of constant index 1.5, and profiles on a three by two grid that
  samples the plane \<open>0.3 + x + 1.5 y\<close>.\<close>

definition ideal_material :: material where
  "ideal_material = BaseMaterial None ''IdealMaterial'' (\<lambda>w. 3 / 2)"

definition tilted_grid :: array2 where
  "tilted_grid = [[3 / 10, 13 / 10, 23 / 10], [33 / 10, 43 / 10, 53 / 10]]"

definition tilted_interp :: GridInterpolator where
  "tilted_interp =
     \<lparr>gi_backend = ''torch'', gi_x_coords = [0, 1, 2], gi_y_coords = [0, 2],
      gi_grid = tilted_grid,
      gi_fns = TorchFns \<lparr>xmin = 0, xmax = 2, ymin = 0, ymax = 2,
                          grid_4d = tilted_grid, dx = 1, dy = 2\<rparr>\<rparr>"

definition grid_example :: GridPhaseProfile where
  "grid_example =
     \<lparr>gp_backend = ''torch'', gp_x_coords = [0, 1, 2], gp_y_coords = [0, 2],
      phase_grid = tilted_grid, gp_interp = tilted_interp\<rparr>"

definition height_example :: HeightProfile where
  "height_example =
     \<lparr>hp_backend = ''torch'', hp_x_coords = [0, 1, 2], hp_y_coords = [0, 2],
      height_map = tilted_grid, material = ideal_material, hp_interp = tilted_interp\<rparr>"

definition reloaded_example :: HeightProfile where
  "reloaded_example = height_example\<lparr>material := PyStr ''IdealMaterial''\<rparr>"

text \<open>The same height profile with a material that has a name, and what reloading its
  serialised form gives.\<close>

definition named_material :: material where
  "named_material = BaseMaterial (Some ''N-BK7'') ''Material(N-BK7)'' (\<lambda>w. 3 / 2)"

definition named_example :: HeightProfile where
  "named_example = height_example\<lparr>material := named_material\<rparr>"

definition reloaded_named :: HeightProfile where
  "reloaded_named = height_example\<lparr>material := PyStr ''N-BK7''\<rparr>"

definition numpy_example :: GridInterpolator where
  "numpy_example =
     \<lparr>gi_backend = ''numpy'', gi_x_coords = [0, 1, 2, 3], gi_y_coords = [0, 1, 2, 3],
      gi_grid = plane_grid, gi_fns = NumpyFns plane_spline\<rparr>"

section \<open>Properties of GridInterpolator\<close>

text \<open>C7: when the active backend is neither \<open>numpy\<close> nor \<open>torch\<close>, construction raises
  ValueError whatever the coordinates, the grid and the spline dependency are: no
  set-up routine runs and no interpolator is returned.\<close>

theorem unsupported_backend_raises:
  "get_backend env \<noteq> ''numpy'' \<Longrightarrow> get_backend env \<noteq> ''torch'' \<Longrightarrow>
   GridInterpolator_init env x_coords y_coords grid
     = Inl (ValueError (''Unsupported backend: '' @ get_backend env))"
  by (simp add: GridInterpolator_init_def)

theorem unsupported_backend_raises_witness:
  "get_backend \<lparr>get_backend = ''jax'', RectBivariateSpline = None\<rparr> \<noteq> ''numpy''
   \<and> get_backend \<lparr>get_backend = ''jax'', RectBivariateSpline = None\<rparr> \<noteq> ''torch''
   \<and> GridInterpolator_init \<lparr>get_backend = ''jax'', RectBivariateSpline = None\<rparr> [] [] [[1, 2]]
       = Inl (ValueError ''Unsupported backend: jax'')"
  using unsupported_backend_raises
    [of "\<lparr>get_backend = ''jax'', RectBivariateSpline = None\<rparr>" "[]" "[]" "[[1, 2]]"]
  by simp


subsection \<open>Indexing and construction\<close>

lemma getitem_first: "a \<noteq> [] \<Longrightarrow> getitem a 0 = Inr (hd a)"
  by (cases a) (simp_all add: getitem_def)

lemma getitem_last: "a \<noteq> [] \<Longrightarrow> getitem a (- 1) = Inr (last a)"
  by (simp add: getitem_def Let_def last_conv_nth nat_diff_distrib' flip: of_nat_diff)

lemma getitem_second: "2 \<le> length a \<Longrightarrow> getitem a 1 = Inr (a ! 1)"
  by (simp add: getitem_def Let_def)

lemma getitem_empty: "getitem [] i = Inl IndexError"
  by (simp add: getitem_def Let_def)

lemma getitem_second_short: "length a < 2 \<Longrightarrow> getitem a 1 = Inl IndexError"
  by (simp add: getitem_def Let_def)

lemma getitem_Inl: "getitem a i = Inl e \<Longrightarrow> e = IndexError"
  by (auto simp: getitem_def Let_def split: if_splits)

lemma setup_torch_eq:
  "setup_torch x_coords y_coords grid =
     (if 2 \<le> length x_coords \<and> 2 \<le> length y_coords
      then Inr (TorchFns \<lparr>xmin = hd x_coords, xmax = last x_coords,
                          ymin = hd y_coords, ymax = last y_coords, grid_4d = grid,
                          dx = x_coords ! 1 - hd x_coords, dy = y_coords ! 1 - hd y_coords\<rparr>)
      else Inl IndexError)"
proof (cases "x_coords = [] \<or> y_coords = []")
  case True
  then show ?thesis
    by (auto simp: setup_torch_def getitem_empty split: sum.splits dest: getitem_Inl)
next
  case False
  then have ne: "x_coords \<noteq> []" "y_coords \<noteq> []" by simp_all
  show ?thesis
  proof (cases "2 \<le> length x_coords")
    case x2: True
    show ?thesis
    proof (cases "2 \<le> length y_coords")
      case True
      with x2 ne show ?thesis
        by (simp add: setup_torch_def getitem_first getitem_last getitem_second)
    next
      case False
      with x2 ne show ?thesis
        by (simp add: setup_torch_def getitem_first getitem_last getitem_second
            getitem_second_short)
    qed
  next
    case False
    with ne show ?thesis
      by (simp add: setup_torch_def getitem_first getitem_last getitem_second_short)
  qed
qed

lemma init_torch_eq:
  "get_backend env = ''torch'' \<Longrightarrow>
   GridInterpolator_init env x_coords y_coords grid =
     (if 2 \<le> length x_coords \<and> 2 \<le> length y_coords
      then Inr \<lparr>gi_backend = ''torch'', gi_x_coords = x_coords, gi_y_coords = y_coords,
                gi_grid = grid,
                gi_fns = TorchFns \<lparr>xmin = hd x_coords, xmax = last x_coords,
                          ymin = hd y_coords, ymax = last y_coords, grid_4d = grid,
                          dx = x_coords ! 1 - hd x_coords, dy = y_coords ! 1 - hd y_coords\<rparr>\<rparr>
      else Inl IndexError)"
  by (simp add: GridInterpolator_init_def setup_torch_eq)

lemma init_numpy_eq:
  "get_backend env = ''numpy'' \<Longrightarrow>
   GridInterpolator_init env x_coords y_coords grid =
     (case RectBivariateSpline env of
        None \<Rightarrow> Inl (ImportError ''scipy is required for numpy interpolator'')
      | Some rbs \<Rightarrow>
          (case rbs y_coords x_coords grid of
             Inl e \<Rightarrow> Inl e
           | Inr sp \<Rightarrow> Inr \<lparr>gi_backend = ''numpy'', gi_x_coords = x_coords,
                             gi_y_coords = y_coords, gi_grid = grid, gi_fns = NumpyFns sp\<rparr>))"
  by (simp add: GridInterpolator_init_def setup_numpy_def split: option.splits sum.splits)

lemma init_backend_cases:
  "GridInterpolator_init env xs ys g = Inr it \<Longrightarrow>
   get_backend env = ''numpy'' \<or> get_backend env = ''torch''"
  by (auto simp: GridInterpolator_init_def Let_def split: if_splits)

lemma tilted_interp_init:
  "GridInterpolator_init torch_env [0, 1, 2] [0, 2] tilted_grid = Inr tilted_interp"
  by (simp add: init_torch_eq torch_env_def tilted_interp_def)

lemma grid_example_init:
  "GridPhaseProfile_init torch_env [0, 1, 2] [0, 2] tilted_grid = Inr grid_example"
  by (simp add: GridPhaseProfile_init_def tilted_interp_init grid_example_def)
     (simp add: torch_env_def)

lemma height_example_init:
  "HeightProfile_init torch_env [0, 1, 2] [0, 2] tilted_grid ideal_material = Inr height_example"
  by (simp add: HeightProfile_init_def tilted_interp_init height_example_def)
     (simp add: torch_env_def)

lemma tilted_height_origin: "height tilted_interp [0] [0] = Inr [3 / 10]"
  by (simp add: height_def tilted_interp_def tilted_grid_def torch_height_fn_def
      normalize_and_grid_def grid_sample_def sample_point_def shape_def pixel_def Let_def)

lemma tilted_gradient_inside: "gradient tilted_interp [0] [1] = Inr ([1], [3 / 2])"
  by (simp add: gradient_def tilted_interp_def tilted_grid_def torch_grad_fn_def
      normalize_and_grid_def grid_sample_def sample_point_grad_def shape_def pixel_def Let_def)

lemma numpy_example_init:
  "GridInterpolator_init numpy_env [0, 1, 2, 3] [0, 1, 2, 3] plane_grid = Inr numpy_example"
  by (simp add: init_numpy_eq numpy_env_def numpy_example_def plane_rbs_def plane_grid_def
      shape_def)

subsection \<open>Sampling at a node of an equally spaced grid\<close>

lemma strict_hd_last:
  assumes "sorted_wrt (<) (a :: real list)" "2 \<le> length a"
  shows "hd a < last a"
proof -
  from assms(2) have ne: "a \<noteq> []" by auto
  have "a ! 0 < a ! (length a - 1)"
    using assms sorted_wrt_nth_less [of "(<)" a 0 "length a - 1"] by simp
  with ne show ?thesis by (simp add: hd_conv_nth last_conv_nth)
qed

lemma uniform_axis_pixel:
  assumes u: "uniform_axis a" and s: "hd a < last a" and n: "2 \<le> length a" and k: "k < length a"
  shows "(2 * (a ! k - hd a) / (last a - hd a) - 1 + 1) / 2 * (real (length a) - 1) = real k"
proof -
  have d: "last a - hd a \<noteq> 0" using s by simp
  have m: "real (length a) - 1 \<noteq> 0" using n by simp
  have "a ! k - hd a = real k * (last a - hd a) / (real (length a) - 1)"
    using u k by (simp add: uniform_axis_def)
  then have "2 * (a ! k - hd a) / (last a - hd a) = 2 * real k / (real (length a) - 1)"
    using d by simp
  then have e: "2 * (a ! k - hd a) / (last a - hd a) - 1 + 1 = 2 * real k / (real (length a) - 1)"
    by linarith
  have "c \<noteq> 0 \<Longrightarrow> 2 * real k / c / 2 * c = real k" for c :: real
    by simp
  from this [OF m] show ?thesis by (simp only: e)
qed

lemma shape_rect:
  "length g = H \<Longrightarrow> 0 < H \<Longrightarrow> \<forall>r\<in>set g. length r = W \<Longrightarrow> shape g = (H, W)"
  by (cases g) (simp_all add: shape_def)

lemma sample_point_node:
  assumes "i < fst (shape g)" "j < snd (shape g)"
    and "(fst p + 1) / 2 * (real (snd (shape g)) - 1) = real j"
    and "(snd p + 1) / 2 * (real (fst (shape g)) - 1) = real i"
  shows "sample_point g p = g ! i ! j"
  using assms by (simp add: sample_point_def Let_def pixel_def)

lemma torch_height_node:
  assumes st: "xmin st = hd xs" "xmax st = last xs" "ymin st = hd ys" "ymax st = last ys"
      "grid_4d st = g"
    and len: "2 \<le> length xs" "2 \<le> length ys"
    and inc: "sorted_wrt (<) xs" "sorted_wrt (<) ys"
    and uni: "uniform_axis xs" "uniform_axis ys"
    and shp: "length g = length ys" "\<forall>r\<in>set g. length r = length xs"
    and idx: "i < length ys" "j < length xs"
  shows "torch_height_fn st [xs ! j] [ys ! i] = Inr [g ! i ! j]"
proof -
  have sh: "shape g = (length ys, length xs)"
    using shp len by (intro shape_rect) auto
  have px: "(2 * (xs ! j - hd xs) / (last xs - hd xs) - 1 + 1) / 2 * (real (length xs) - 1) = real j"
    using uni(1) inc(1) len(1) idx(2) by (intro uniform_axis_pixel strict_hd_last)
  have py: "(2 * (ys ! i - hd ys) / (last ys - hd ys) - 1 + 1) / 2 * (real (length ys) - 1) = real i"
    using uni(2) inc(2) len(2) idx(1) by (intro uniform_axis_pixel strict_hd_last)
  have "sample_point g (2 * (xs ! j - hd xs) / (last xs - hd xs) - 1,
                        2 * (ys ! i - hd ys) / (last ys - hd ys) - 1) = g ! i ! j"
    using idx px py by (intro sample_point_node) (simp_all add: sh)
  then show ?thesis
    using len by (auto simp: torch_height_fn_def normalize_and_grid_def grid_sample_def st sh)
qed

text \<open>C1: on a grid with strictly increasing coordinates and values of shape (Ny, Nx),
  \<open>height(x_coords[j], y_coords[i])\<close> should be \<open>values[i][j]\<close> under both strategies. The
  torch strategy does not deliver it on an unequally spaced axis: with \<open>x_coords = [0, 1, 3]\<close>
  the node \<open>x = 1\<close> is normalised to pixel 2/3 of the first row, and \<open>height\<close> returns 2/3
  where the grid holds 1.\<close>

theorem torch_height_misses_node:
  "sorted_wrt (<) [0, 1, 3 :: real] \<and> sorted_wrt (<) [0, 1 :: real]
   \<and> shape [[0, 1, 3], [0, 1, 3]] = (length [0, 1 :: real], length [0, 1, 3 :: real])
   \<and> height_of_grid torch_env [0, 1, 3] [0, 1] [[0, 1, 3], [0, 1, 3]] [[0, 1, 3] ! 1] [[0, 1] ! 0]
       = Inr [2 / 3]
   \<and> [[0, 1, 3], [0, 1, 3 :: real]] ! 0 ! 1 = 1"
  by (simp add: height_of_grid_def torch_env_def init_torch_eq height_def torch_height_fn_def
      normalize_and_grid_def grid_sample_def sample_point_def shape_def pixel_def Let_def)

text \<open>C2, as amended: the constructor performs no shape check of its own. Under the
  torch backend construction fails exactly when a coordinate axis has fewer than two
  entries, whatever the shape of the grid; under the numpy backend with the spline class
  present it fails exactly when fitting \<open>RectBivariateSpline(y_coords, x_coords, grid)\<close>
  fails, and with that error.\<close>

theorem construction_ignores_grid_shape:
  "(get_backend env = ''torch'' \<longrightarrow>
      isl (GridInterpolator_init env x_coords y_coords grid)
        = (length x_coords < 2 \<or> length y_coords < 2))
   \<and> (get_backend env = ''numpy'' \<longrightarrow> RectBivariateSpline env = Some rbs \<longrightarrow>
      (GridInterpolator_init env x_coords y_coords grid = Inl e)
        = (rbs y_coords x_coords grid = Inl e))"
  by (auto simp: init_torch_eq init_numpy_eq split: sum.splits)

theorem construction_ignores_grid_shape_witness:
  "get_backend torch_env = ''torch''
   \<and> isl (GridInterpolator_init torch_env [0, 1] [0, 1] [[1, 2, 3]])
       = (length [0, 1 :: real] < 2 \<or> length [0, 1 :: real] < 2)
   \<and> get_backend numpy_env = ''numpy''
   \<and> RectBivariateSpline numpy_env = Some plane_rbs
   \<and> GridInterpolator_init numpy_env [0, 1] [0, 1] [[1, 2, 3]]
       = Inl (ValueError ''x dimension of z must have same number of elements as x'')"
  using construction_ignores_grid_shape [of torch_env "[0, 1]" "[0, 1]" "[[1, 2, 3]]"]
    construction_ignores_grid_shape [where env = numpy_env and rbs = plane_rbs
      and x_coords = "[0, 1]" and y_coords = "[0, 1]" and grid = "[[1, 2, 3]]"
      and e = "ValueError ''x dimension of z must have same number of elements as x''"]
  by (simp add: torch_env_def numpy_env_def plane_rbs_def shape_def)

theorem no_shape_check_counterexample:
  "shape [[1, 2, 3]] \<noteq> (length [0, 1 :: real], length [0, 1 :: real])
   \<and> \<not> isl (GridInterpolator_init torch_env [0, 1] [0, 1] [[1, 2, 3]])
   \<and> height_of_grid torch_env [0, 1] [0, 1] [[1, 2, 3]] [1] [0] = Inr [3]"
  by (simp add: height_of_grid_def torch_env_def init_torch_eq height_def torch_height_fn_def
      normalize_and_grid_def grid_sample_def sample_point_def shape_def pixel_def Let_def)

text \<open>C9, as amended: under the torch backend construction reads \<open>x_coords[1]\<close> and
  \<open>y_coords[1]\<close> and divides by nothing: it raises IndexError when an axis has fewer than
  two entries, and otherwise succeeds and stores the end points of each axis. The
  division by \<open>x_coords[-1] - x_coords[0]\<close> and \<open>y_coords[-1] - y_coords[0]\<close> is made at
  every evaluation, by the normalisation that construction set up. Under the numpy
  backend no entry is read: construction succeeds as soon as the spline fit does.\<close>

theorem torch_setup_indexes_evaluation_divides:
  "(get_backend env = ''torch'' \<longrightarrow>
      (length x_coords < 2 \<or> length y_coords < 2 \<longrightarrow>
         GridInterpolator_init env x_coords y_coords grid = Inl IndexError)
      \<and> (2 \<le> length x_coords \<and> 2 \<le> length y_coords \<longrightarrow>
           (\<exists>it st. GridInterpolator_init env x_coords y_coords grid = Inr it
              \<and> gi_fns it = TorchFns st
              \<and> xmin st = hd x_coords \<and> xmax st = last x_coords
              \<and> ymin st = hd y_coords \<and> ymax st = last y_coords
              \<and> dx st = x_coords ! 1 - hd x_coords \<and> dy st = y_coords ! 1 - hd y_coords
              \<and> (last x_coords \<noteq> hd x_coords \<and> last y_coords \<noteq> hd y_coords \<longrightarrow>
                   (\<forall>x y. normalize_and_grid st [x] [y]
                      = Inr [(2 * (x - hd x_coords) / (last x_coords - hd x_coords) - 1,
                              2 * (y - hd y_coords) / (last y_coords - hd y_coords) - 1)]
                    \<and> height it [x] [y]
                      = grid_sample grid
                          [(2 * (x - hd x_coords) / (last x_coords - hd x_coords) - 1,
                            2 * (y - hd y_coords) / (last y_coords - hd y_coords) - 1)])))))
   \<and> (get_backend env = ''numpy'' \<longrightarrow> RectBivariateSpline env = Some rbs \<longrightarrow>
        rbs y_coords x_coords grid = Inr sp \<longrightarrow>
        (\<exists>it. GridInterpolator_init env x_coords y_coords grid = Inr it
           \<and> gi_fns it = NumpyFns sp))"
  by (auto simp: init_torch_eq init_numpy_eq height_def torch_height_fn_def
      normalize_and_grid_def)

theorem torch_setup_indexes_evaluation_divides_witness:
  "get_backend torch_env = ''torch''
   \<and> length [5 :: real] < 2
   \<and> GridInterpolator_init torch_env [5] [0, 2] [[1], [4]] = Inl IndexError
   \<and> GridInterpolator_init torch_env [0, 1, 2] [0, 2] tilted_grid = Inr tilted_interp
   \<and> last [0, 1, 2 :: real] \<noteq> hd [0, 1, 2 :: real] \<and> last [0, 2 :: real] \<noteq> hd [0, 2 :: real]
   \<and> height tilted_interp [1 / 2] [1] = grid_sample tilted_grid [(- 1 / 2, 0)]
   \<and> get_backend numpy_env = ''numpy''
   \<and> plane_rbs [0, 1, 2, 3] [0, 1, 2, 3] plane_grid = Inr plane_spline
   \<and> GridInterpolator_init numpy_env [0, 1, 2, 3] [0, 1, 2, 3] plane_grid = Inr numpy_example"
  using torch_setup_indexes_evaluation_divides [of torch_env "[5]" "[0, 2]" "[[1], [4]]"]
    torch_setup_indexes_evaluation_divides [of torch_env "[0, 1, 2]" "[0, 2]" tilted_grid]
    torch_setup_indexes_evaluation_divides [where env = numpy_env and rbs = plane_rbs
      and x_coords = "[0, 1, 2, 3]" and y_coords = "[0, 1, 2, 3]" and grid = plane_grid
      and sp = plane_spline]
    tilted_interp_init numpy_example_init
  by (auto simp: torch_env_def numpy_env_def plane_rbs_def shape_def plane_grid_def)

theorem construction_divides_counterexample:
  "last [1, 1 :: real] - hd [1, 1 :: real] = 0
   \<and> last [2, 2 :: real] - hd [2, 2 :: real] = 0
   \<and> GridInterpolator_init torch_env [1, 1] [2, 2] [[5, 5], [5, 5]]
       = Inr \<lparr>gi_backend = ''torch'', gi_x_coords = [1, 1], gi_y_coords = [2, 2],
              gi_grid = [[5, 5], [5, 5]],
              gi_fns = TorchFns \<lparr>xmin = 1, xmax = 1, ymin = 2, ymax = 2,
                                  grid_4d = [[5, 5], [5, 5]], dx = 0, dy = 0\<rparr>\<rparr>"
  by (simp add: torch_env_def init_torch_eq)

section \<open>Properties of the phase profiles\<close>

subsection \<open>Gradients\<close>

lemma broadcast2_length:
  "broadcast2 f a b = Inr c \<Longrightarrow> broadcast2 f' a b = Inr c' \<Longrightarrow> length c = length c'"
  by (auto simp: broadcast2_def split: if_splits)

lemma gradient_lengths: "gradient it x y = Inr (a, b) \<Longrightarrow> length a = length b"
  by (auto simp: gradient_def numpy_grad_fn_def torch_grad_fn_def
      split: strategy.splits sum.splits dest: broadcast2_length)

lemma broadcast2_same_outcome:
  assumes "length a = length b"
  shows "(\<exists>e. broadcast2 f c a = Inl e \<and> broadcast2 f c b = Inl e)
       \<or> (\<exists>u v. broadcast2 f c a = Inr u \<and> broadcast2 f c b = Inr v)"
  using assms by (auto simp: broadcast2_def)

text \<open>C5: for both profile variants, every \<open>y\<close> and every wavelength,
  \<open>get_paraxial_gradient(y, wavelength)\<close> is the second component of
  \<open>get_gradient(0, y, wavelength)\<close>, the zero array having the shape of \<open>y\<close>; when one
  call raises, the other raises the same error.\<close>

theorem paraxial_is_y_component:
  "GridPhaseProfile_get_paraxial_gradient p y wavelength
     = (case GridPhaseProfile_get_gradient p (zeros_like y) y wavelength of
          Inl e \<Rightarrow> Inl e | Inr (gx, gy, gz) \<Rightarrow> Inr gy)
   \<and> HeightProfile_get_paraxial_gradient q y wl
     = (case HeightProfile_get_gradient q (zeros_like y) y wl of
          Inl e \<Rightarrow> Inl e | Inr (gx, gy, gz) \<Rightarrow> Inr gy)"
proof
  show "GridPhaseProfile_get_paraxial_gradient p y wavelength
     = (case GridPhaseProfile_get_gradient p (zeros_like y) y wavelength of
          Inl e \<Rightarrow> Inl e | Inr (gx, gy, gz) \<Rightarrow> Inr gy)"
    by (simp add: GridPhaseProfile_get_paraxial_gradient_def GridPhaseProfile_get_gradient_def
        Let_def split: sum.splits prod.splits)
next
  show "HeightProfile_get_paraxial_gradient q y wl
     = (case HeightProfile_get_gradient q (zeros_like y) y wl of
          Inl e \<Rightarrow> Inl e | Inr (gx, gy, gz) \<Rightarrow> Inr gy)"
  proof (cases "interpolate_gradient q (zeros_like y) y")
    case (Inl e)
    then show ?thesis
      by (simp add: HeightProfile_get_paraxial_gradient_def HeightProfile_get_gradient_def)
  next
    case (Inr ab)
    obtain a b where ab: "ab = (a, b)" by (cases ab)
    with Inr have len: "length a = length b"
      by (auto simp: interpolate_gradient_def dest: gradient_lengths)
    show ?thesis
    proof (cases "material_n (material q) wl")
      case (Inl e)
      with Inr ab show ?thesis
        by (simp add: HeightProfile_get_paraxial_gradient_def HeightProfile_get_gradient_def)
    next
      case n: (Inr n)
      show ?thesis
      proof (cases "phase_factor wl n")
        case (Inl e)
        with Inr ab n show ?thesis
          by (simp add: HeightProfile_get_paraxial_gradient_def HeightProfile_get_gradient_def)
      next
        case fac: (Inr fac)
        from broadcast2_same_outcome [OF len, of "(*)" fac]
        show ?thesis
          using Inr ab n fac
          by (auto simp: HeightProfile_get_paraxial_gradient_def HeightProfile_get_gradient_def)
      qed
    qed
  qed
qed

theorem paraxial_is_y_component_witness:
  "GridPhaseProfile_get_gradient grid_example (zeros_like [1]) [1] None = Inr ([1], [3 / 2], [0])
   \<and> GridPhaseProfile_get_paraxial_gradient grid_example [1] None = Inr [3 / 2]
   \<and> HeightProfile_get_gradient height_example (zeros_like [1]) [1] [1]
       = Inr ([1000 * pi], [1500 * pi], [0])
   \<and> HeightProfile_get_paraxial_gradient height_example [1] [1] = Inr [1500 * pi]"
proof -
  have g: "GridPhaseProfile_get_gradient grid_example (zeros_like [1]) [1] None
      = Inr ([1], [3 / 2], [0])"
    by (simp add: GridPhaseProfile_get_gradient_def grid_example_def zeros_like_def
        tilted_gradient_inside)
  have h: "HeightProfile_get_gradient height_example (zeros_like [1]) [1] [1]
      = Inr ([1000 * pi], [1500 * pi], [0])"
    by (simp add: HeightProfile_get_gradient_def interpolate_gradient_def height_example_def
        zeros_like_def tilted_gradient_inside material_n_def ideal_material_def
        phase_factor_def broadcast2_def)
  from paraxial_is_y_component [of grid_example "[1]" None height_example "[1]"] g h
  show ?thesis by simp
qed

text \<open>C6: on a GridPhaseProfile the wavelength argument, \<open>None\<close> included, changes no
  result of \<open>get_phase\<close>, \<open>get_gradient\<close> or \<open>get_paraxial_gradient\<close>, and \<open>get_phase\<close> is
  the interpolator's \<open>height\<close>.\<close>

theorem wavelength_has_no_effect:
  "GridPhaseProfile_get_phase p x y w1 = GridPhaseProfile_get_phase p x y w2
   \<and> GridPhaseProfile_get_gradient p x y w1 = GridPhaseProfile_get_gradient p x y w2
   \<and> GridPhaseProfile_get_paraxial_gradient p y w1 = GridPhaseProfile_get_paraxial_gradient p y w2
   \<and> GridPhaseProfile_get_phase p x y w1 = height (gp_interp p) x y"
  by (simp add: GridPhaseProfile_get_phase_def GridPhaseProfile_get_gradient_def
      GridPhaseProfile_get_paraxial_gradient_def)

theorem wavelength_has_no_effect_witness:
  "GridPhaseProfile_get_phase grid_example [0] [0] None = Inr [3 / 10]
   \<and> GridPhaseProfile_get_phase grid_example [0] [0] (Some [1]) = Inr [3 / 10]"
proof -
  have "height (gp_interp grid_example) [0] [0] = Inr [3 / 10]"
    by (simp add: grid_example_def tilted_height_origin)
  with wavelength_has_no_effect [of grid_example "[0]" "[0]" None "Some [1]"]
    wavelength_has_no_effect [of grid_example "[0]" "[0]" "Some [1]" None]
  show ?thesis by simp
qed

text \<open>C8: for both profile variants, the third component of the tuple that
  \<open>get_gradient(x, y, wavelength)\<close> returns is an array of zeros of the shape of \<open>x\<close>.\<close>

theorem gradient_z_is_zero:
  "(GridPhaseProfile_get_gradient p x y wavelength = Inr (gx, gy, gz) \<longrightarrow>
      gz = replicate (length x) 0)
   \<and> (HeightProfile_get_gradient q x y wl = Inr (hx, hy, hz) \<longrightarrow>
      hz = replicate (length x) 0)"
  by (auto simp: GridPhaseProfile_get_gradient_def HeightProfile_get_gradient_def zeros_like_def
      split: sum.splits prod.splits)

theorem gradient_z_is_zero_witness:
  "GridPhaseProfile_get_gradient grid_example [0] [1] None = Inr ([1], [3 / 2], [0])
   \<and> HeightProfile_get_gradient height_example [0] [1] [1]
       = Inr ([1000 * pi], [1500 * pi], replicate (length [0 :: real]) 0)"
proof -
  have g: "\<exists>gz. GridPhaseProfile_get_gradient grid_example [0] [1] None = Inr ([1], [3 / 2], gz)"
    by (simp add: GridPhaseProfile_get_gradient_def grid_example_def tilted_gradient_inside)
  have h: "\<exists>hz. HeightProfile_get_gradient height_example [0] [1] [1]
      = Inr ([1000 * pi], [1500 * pi], hz)"
    by (simp add: HeightProfile_get_gradient_def interpolate_gradient_def height_example_def
        tilted_gradient_inside material_n_def ideal_material_def
        phase_factor_def broadcast2_def)
  from g h gradient_z_is_zero [of grid_example "[0]" "[1]" None "[1]" "[3 / 2]" _
      height_example "[1]" "[1000 * pi]" "[1500 * pi]"]
  show ?thesis by auto
qed

subsection \<open>Height to phase\<close>

lemma phase_factor_eq:
  "phase_factor wavelength (map nf wavelength)
     = Inr (map (\<lambda>w. 2 * pi / (w * (1 / 10 ^ 3)) * (nf w - 1)) wavelength)"
proof -
  have "map2 (*) (map a ws) (map b ws) = map (\<lambda>w. a w * b w) ws"
    for a b :: "real \<Rightarrow> real" and ws
    by (induction ws) simp_all
  from this [where a = "\<lambda>w. 2 * pi / (w * (1 / 1000))" and b = "\<lambda>w. nf w - 1"
      and ws = wavelength]
  show ?thesis
    by (simp add: phase_factor_def broadcast2_def comp_def)
qed

text \<open>C3: for a HeightProfile whose material has index function \<open>n\<close> and whose
  interpolated height at the points is \<open>h\<close>, \<open>get_phase\<close> at non-zero wavelengths in
  micrometres is \<open>(2 pi / (w * 10^-3)) * (n(w) - 1) * h\<close>, elementwise with broadcasting
  between the wavelength array and the heights; with w = 1.0, n = 1.5 and h = 0.3 it is
  \<open>(2 pi / 0.001) * 0.5 * 0.3\<close>.\<close>

theorem height_profile_phase_formula:
  assumes "interpolate_height q x y = Inr h"
    and "material q = BaseMaterial nm s nf"
    and "0 \<notin> set wavelength"
  shows "HeightProfile_get_phase q x y wavelength
           = broadcast2 (*) (map (\<lambda>w. 2 * pi / (w * (1 / 10 ^ 3)) * (nf w - 1)) wavelength) h
       \<and> (\<forall>w. wavelength = [w] \<longrightarrow>
            HeightProfile_get_phase q x y wavelength
              = Inr (map (\<lambda>hv. 2 * pi / (w * (1 / 10 ^ 3)) * (nf w - 1) * hv) h))"
proof -
  have g: "HeightProfile_get_phase q x y wavelength
           = broadcast2 (*) (map (\<lambda>w. 2 * pi / (w * (1 / 10 ^ 3)) * (nf w - 1)) wavelength) h"
    using assms(1,2) by (simp add: HeightProfile_get_phase_def material_n_def phase_factor_eq)
  have b: "broadcast2 (*) (map (\<lambda>w. 2 * pi / (w * (1 / 10 ^ 3)) * (nf w - 1)) [w]) h
          = Inr (map (\<lambda>hv. 2 * pi / (w * (1 / 10 ^ 3)) * (nf w - 1) * hv) h)" for w
    by (cases h) (auto simp: broadcast2_def)
  show ?thesis
  proof (intro conjI allI impI)
    show "HeightProfile_get_phase q x y wavelength
           = broadcast2 (*) (map (\<lambda>w. 2 * pi / (w * (1 / 10 ^ 3)) * (nf w - 1)) wavelength) h"
      by (rule g)
  next
    fix w assume "wavelength = [w]"
    with g b [of w]
    show "HeightProfile_get_phase q x y wavelength
              = Inr (map (\<lambda>hv. 2 * pi / (w * (1 / 10 ^ 3)) * (nf w - 1) * hv) h)"
      by simp
  qed
qed

theorem height_profile_phase_formula_witness:
  "interpolate_height height_example [0] [0] = Inr [3 / 10]
   \<and> material height_example = BaseMaterial None ''IdealMaterial'' (\<lambda>w. 3 / 2)
   \<and> 0 \<notin> set [1 :: real]
   \<and> HeightProfile_get_phase height_example [0] [0] [1]
       = Inr [2 * pi / (1 * (1 / 10 ^ 3)) * (3 / 2 - 1) * (3 / 10)]"
proof -
  have h: "interpolate_height height_example [0] [0] = Inr [3 / 10]"
    by (simp add: interpolate_height_def height_example_def tilted_height_origin)
  have m: "material height_example = BaseMaterial None ''IdealMaterial'' (\<lambda>w. 3 / 2)"
    by (simp add: height_example_def ideal_material_def)
  from height_profile_phase_formula [OF h m, of "[1]"] h m show ?thesis by auto
qed

subsection \<open>Serialisation\<close>

lemma grid_init_fields:
  "GridPhaseProfile_init env xs ys g = Inr p \<Longrightarrow>
   gp_x_coords p = xs \<and> gp_y_coords p = ys \<and> phase_grid p = g"
  by (auto simp: GridPhaseProfile_init_def split: sum.splits)

lemma height_init_fields:
  "HeightProfile_init env xs ys g m = Inr q \<Longrightarrow>
   hp_x_coords q = xs \<and> hp_y_coords q = ys \<and> height_map q = g \<and> material q = m"
  by (auto simp: HeightProfile_init_def split: sum.splits)

lemma height_init_material:
  "HeightProfile_init env xs ys g m = Inr q \<Longrightarrow>
   HeightProfile_init env xs ys g m' = Inr (q\<lparr>material := m'\<rparr>)"
  by (auto simp: HeightProfile_init_def split: sum.splits)

lemma grid_roundtrip:
  "GridPhaseProfile_init env xs ys g = Inr p \<Longrightarrow>
   GridPhaseProfile_from_dict env (GridPhaseProfile_to_dict p) = Inr p"
  by (frule grid_init_fields)
     (simp add: GridPhaseProfile_from_dict_def GridPhaseProfile_to_dict_def base_to_dict_def)

lemma height_roundtrip:
  "HeightProfile_init env xs ys g m = Inr q \<Longrightarrow>
   HeightProfile_from_dict env (HeightProfile_to_dict q)
     = Inr (q\<lparr>material := PyStr (getattr_name m)\<rparr>)"
  by (frule height_init_fields)
     (simp add: HeightProfile_from_dict_def HeightProfile_to_dict_def base_to_dict_def
        height_init_material)

text \<open>C4: for every profile that construction returned, \<open>from_dict(profile.to_dict())\<close>
  succeeds in the same environment and gives a profile with the same \<open>x_coords\<close>,
  \<open>y_coords\<close> and grid data (\<open>phase_grid\<close> or \<open>height_map\<close>); nothing is said of the
  material of a HeightProfile.\<close>

theorem roundtrip_preserves_grid:
  "(GridPhaseProfile_init env xs ys g = Inr p \<longrightarrow>
      (\<exists>p'. GridPhaseProfile_from_dict env (GridPhaseProfile_to_dict p) = Inr p'
         \<and> gp_x_coords p' = gp_x_coords p \<and> gp_y_coords p' = gp_y_coords p
         \<and> phase_grid p' = phase_grid p))
   \<and> (HeightProfile_init env xs ys g m = Inr q \<longrightarrow>
      (\<exists>q'. HeightProfile_from_dict env (HeightProfile_to_dict q) = Inr q'
         \<and> hp_x_coords q' = hp_x_coords q \<and> hp_y_coords q' = hp_y_coords q
         \<and> height_map q' = height_map q))"
  by (auto simp: grid_roundtrip height_roundtrip)

theorem roundtrip_preserves_grid_witness:
  "GridPhaseProfile_init torch_env [0, 1, 2] [0, 2] tilted_grid = Inr grid_example
   \<and> (\<exists>p'. GridPhaseProfile_from_dict torch_env (GridPhaseProfile_to_dict grid_example) = Inr p'
         \<and> gp_x_coords p' = [0, 1, 2] \<and> gp_y_coords p' = [0, 2] \<and> phase_grid p' = tilted_grid)
   \<and> HeightProfile_init torch_env [0, 1, 2] [0, 2] tilted_grid ideal_material = Inr height_example
   \<and> (\<exists>q'. HeightProfile_from_dict torch_env (HeightProfile_to_dict height_example) = Inr q'
         \<and> hp_x_coords q' = [0, 1, 2] \<and> hp_y_coords q' = [0, 2] \<and> height_map q' = tilted_grid)"
  using roundtrip_preserves_grid [of torch_env "[0, 1, 2]" "[0, 2]" tilted_grid grid_example
      ideal_material height_example]
    grid_example_init height_example_init
  by (simp add: grid_example_def height_example_def)

lemma str_material_phase:
  "material q = PyStr s \<Longrightarrow>
   HeightProfile_get_phase q x y wl
     = (case interpolate_height q x y of Inl e \<Rightarrow> Inl e | Inr h \<Rightarrow> Inl (AttributeError ''n''))"
  by (simp add: HeightProfile_get_phase_def material_n_def split: sum.splits)

lemma str_material_gradient:
  "material q = PyStr s \<Longrightarrow>
   HeightProfile_get_gradient q x y wl
     = (case interpolate_gradient q x y of Inl e \<Rightarrow> Inl e | Inr d \<Rightarrow> Inl (AttributeError ''n''))"
  by (simp add: HeightProfile_get_gradient_def material_n_def split: sum.splits prod.splits)

lemma str_material_paraxial:
  "material q = PyStr s \<Longrightarrow>
   HeightProfile_get_paraxial_gradient q y wl
     = (case interpolate_gradient q (zeros_like y) y of
          Inl e \<Rightarrow> Inl e | Inr d \<Rightarrow> Inl (AttributeError ''n''))"
  by (simp add: HeightProfile_get_paraxial_gradient_def material_n_def Let_def
      split: sum.splits prod.splits)

lemma from_dict_material:
  "HeightProfile_from_dict env data = Inr q \<Longrightarrow> d_material data = Some (material q)"
  by (auto simp: HeightProfile_from_dict_def split: option.splits dest: height_init_fields)

lemma str_material_fails:
  assumes "material q = PyStr s"
  shows "isl (HeightProfile_get_phase q x y wl)
       \<and> isl (HeightProfile_get_gradient q x y wl)
       \<and> isl (HeightProfile_get_paraxial_gradient q y wl)
       \<and> (\<not> isl (interpolate_height q x y) \<longrightarrow>
            HeightProfile_get_phase q x y wl = Inl (AttributeError ''n''))
       \<and> (\<not> isl (interpolate_gradient q x y) \<longrightarrow>
            HeightProfile_get_gradient q x y wl = Inl (AttributeError ''n''))
       \<and> (\<not> isl (interpolate_gradient q (zeros_like y) y) \<longrightarrow>
            HeightProfile_get_paraxial_gradient q y wl = Inl (AttributeError ''n''))"
  by (simp add: str_material_phase [OF assms] str_material_gradient [OF assms]
      str_material_paraxial [OF assms] split: sum.splits)

text \<open>C10: \<open>HeightProfile.to_dict\<close> writes the material as a string: the \<open>name\<close> attribute
  of a material that has one, else its \<open>str()\<close> (a material that is already a string is
  written as it is). \<open>from_dict\<close> takes no material but the entry of the dictionary, which
  it passes on unchanged, so reloading what \<open>to_dict\<close> wrote gives a profile whose material
  is that string. Its construction succeeds, and every later \<open>get_phase\<close>,
  \<open>get_gradient\<close> or \<open>get_paraxial_gradient\<close> call on it raises: AttributeError for the
  missing method \<open>n\<close> as soon as the interpolation itself went through.\<close>

theorem reloaded_height_profile_fails:
  assumes "HeightProfile_init env xs ys g m = Inr q"
  shows "(\<forall>nm s f. m = BaseMaterial (Some nm) s f \<longrightarrow>
            d_material (HeightProfile_to_dict q) = Some (PyStr nm))
       \<and> (\<forall>s f. m = BaseMaterial None s f \<longrightarrow>
            d_material (HeightProfile_to_dict q) = Some (PyStr s))
       \<and> (\<forall>s. m = PyStr s \<longrightarrow> d_material (HeightProfile_to_dict q) = Some (PyStr s))
       \<and> (\<exists>q' t. d_material (HeightProfile_to_dict q) = Some (PyStr t)
            \<and> HeightProfile_from_dict env (HeightProfile_to_dict q) = Inr q'
            \<and> material q' = PyStr t
            \<and> hp_interp q' = hp_interp q
            \<and> (\<forall>x y wl.
                 isl (HeightProfile_get_phase q' x y wl)
               \<and> isl (HeightProfile_get_gradient q' x y wl)
               \<and> isl (HeightProfile_get_paraxial_gradient q' y wl)
               \<and> (\<not> isl (interpolate_height q' x y) \<longrightarrow>
                    HeightProfile_get_phase q' x y wl = Inl (AttributeError ''n''))
               \<and> (\<not> isl (interpolate_gradient q' x y) \<longrightarrow>
                    HeightProfile_get_gradient q' x y wl = Inl (AttributeError ''n''))
               \<and> (\<not> isl (interpolate_gradient q' (zeros_like y) y) \<longrightarrow>
                    HeightProfile_get_paraxial_gradient q' y wl = Inl (AttributeError ''n''))))
       \<and> (\<forall>data r. HeightProfile_from_dict env data = Inr r \<longrightarrow>
            d_material data = Some (material r))"
proof -
  from assms have mq: "material q = m"
    by (auto dest: height_init_fields)
  have named: "\<forall>nm s f. m = BaseMaterial (Some nm) s f \<longrightarrow>
            d_material (HeightProfile_to_dict q) = Some (PyStr nm)"
    by (simp add: HeightProfile_to_dict_def mq getattr_name_def)
  have unnamed: "\<forall>s f. m = BaseMaterial None s f \<longrightarrow>
            d_material (HeightProfile_to_dict q) = Some (PyStr s)"
    by (simp add: HeightProfile_to_dict_def mq getattr_name_def)
  have str: "\<forall>s. m = PyStr s \<longrightarrow> d_material (HeightProfile_to_dict q) = Some (PyStr s)"
    by (simp add: HeightProfile_to_dict_def mq getattr_name_def)
  let ?t = "getattr_name m"
  let ?q' = "q\<lparr>material := PyStr ?t\<rparr>"
  have d: "d_material (HeightProfile_to_dict q) = Some (PyStr ?t)"
    by (simp add: HeightProfile_to_dict_def mq)
  have r: "HeightProfile_from_dict env (HeightProfile_to_dict q) = Inr ?q'"
    by (rule height_roundtrip [OF assms])
  have m': "material ?q' = PyStr ?t" by simp
  have i': "hp_interp ?q' = hp_interp q" by simp
  have reload: "\<exists>q' t. d_material (HeightProfile_to_dict q) = Some (PyStr t)
            \<and> HeightProfile_from_dict env (HeightProfile_to_dict q) = Inr q'
            \<and> material q' = PyStr t
            \<and> hp_interp q' = hp_interp q
            \<and> (\<forall>x y wl.
                 isl (HeightProfile_get_phase q' x y wl)
               \<and> isl (HeightProfile_get_gradient q' x y wl)
               \<and> isl (HeightProfile_get_paraxial_gradient q' y wl)
               \<and> (\<not> isl (interpolate_height q' x y) \<longrightarrow>
                    HeightProfile_get_phase q' x y wl = Inl (AttributeError ''n''))
               \<and> (\<not> isl (interpolate_gradient q' x y) \<longrightarrow>
                    HeightProfile_get_gradient q' x y wl = Inl (AttributeError ''n''))
               \<and> (\<not> isl (interpolate_gradient q' (zeros_like y) y) \<longrightarrow>
                    HeightProfile_get_paraxial_gradient q' y wl = Inl (AttributeError ''n'')))"
    using d r m' i' str_material_fails [OF m'] by blast
  have pass: "\<forall>data r. HeightProfile_from_dict env data = Inr r \<longrightarrow>
            d_material data = Some (material r)"
    using from_dict_material by blast
  from named unnamed str reload pass show ?thesis by blast
qed

lemma named_example_init:
  "HeightProfile_init torch_env [0, 1, 2] [0, 2] tilted_grid named_material = Inr named_example"
  using height_init_material [OF height_example_init, of named_material]
  by (simp add: named_example_def)

lemma reloaded_named_origin: "interpolate_height reloaded_named [0] [0] = Inr [3 / 10]"
  by (simp add: interpolate_height_def reloaded_named_def height_example_def
      tilted_height_origin)

lemma reloaded_example_origin: "interpolate_height reloaded_example [0] [0] = Inr [3 / 10]"
  by (simp add: interpolate_height_def reloaded_example_def height_example_def
      tilted_height_origin)

theorem reloaded_height_profile_fails_witness:
  "HeightProfile_init torch_env [0, 1, 2] [0, 2] tilted_grid named_material = Inr named_example
   \<and> d_material (HeightProfile_to_dict named_example) = Some (PyStr ''N-BK7'')
   \<and> HeightProfile_from_dict torch_env (HeightProfile_to_dict named_example) = Inr reloaded_named
   \<and> \<not> isl (interpolate_height reloaded_named [0] [0])
   \<and> HeightProfile_get_phase reloaded_named [0] [0] [1] = Inl (AttributeError ''n'')
   \<and> HeightProfile_init torch_env [0, 1, 2] [0, 2] tilted_grid ideal_material = Inr height_example
   \<and> d_material (HeightProfile_to_dict height_example) = Some (PyStr ''IdealMaterial'')
   \<and> HeightProfile_from_dict torch_env (HeightProfile_to_dict height_example)
       = Inr reloaded_example
   \<and> \<not> isl (interpolate_height reloaded_example [0] [0])
   \<and> HeightProfile_get_phase reloaded_example [0] [0] [1] = Inl (AttributeError ''n'')"
proof -
  note a = reloaded_height_profile_fails [OF named_example_init]
  note b = reloaded_height_profile_fails [OF height_example_init]
  have da: "d_material (HeightProfile_to_dict named_example) = Some (PyStr ''N-BK7'')"
    using a by (simp add: named_material_def)
  have db: "d_material (HeightProfile_to_dict height_example) = Some (PyStr ''IdealMaterial'')"
    using b by (simp add: ideal_material_def)
  from a da obtain qa where
    qa: "HeightProfile_from_dict torch_env (HeightProfile_to_dict named_example) = Inr qa"
      "material qa = PyStr ''N-BK7''"
      "\<not> isl (interpolate_height qa [0] [0]) \<longrightarrow>
         HeightProfile_get_phase qa [0] [0] [1] = Inl (AttributeError ''n'')"
    by auto
  from b db obtain qb where
    qb: "HeightProfile_from_dict torch_env (HeightProfile_to_dict height_example) = Inr qb"
      "material qb = PyStr ''IdealMaterial''"
      "\<not> isl (interpolate_height qb [0] [0]) \<longrightarrow>
         HeightProfile_get_phase qb [0] [0] [1] = Inl (AttributeError ''n'')"
    by auto
  have ra: "HeightProfile_from_dict torch_env (HeightProfile_to_dict named_example)
      = Inr reloaded_named"
    using height_roundtrip [OF named_example_init]
    by (simp add: reloaded_named_def named_example_def getattr_name_def named_material_def)
  have rb: "HeightProfile_from_dict torch_env (HeightProfile_to_dict height_example)
      = Inr reloaded_example"
    using height_roundtrip [OF height_example_init]
    by (simp add: reloaded_example_def getattr_name_def ideal_material_def)
  from qa ra have ea: "qa = reloaded_named" by simp
  from qb rb have eb: "qb = reloaded_example" by simp
  from qa(3) ea reloaded_named_origin
  have pa: "HeightProfile_get_phase reloaded_named [0] [0] [1] = Inl (AttributeError ''n'')"
    by simp
  from qb(3) eb reloaded_example_origin
  have pb: "HeightProfile_get_phase reloaded_example [0] [0] [1] = Inl (AttributeError ''n'')"
    by simp
  from da db ra rb pa pb named_example_init height_example_init
    reloaded_named_origin reloaded_example_origin
  show ?thesis by simp
qed

end
